theory Spec2Isabelle
  imports Complex_Main "HOL-Library.AList" "HOL-Library.Sublist"
begin

section \<open>The AirBnB data handler\<close>

text \<open>
  A shallow embedding of \<^verbatim>\<open>AirBnBDataHandler.js\<close> (\<^verbatim>\<open>parseCSV\<close> and the handler
  made by \<^verbatim>\<open>createAirBnBDataHandler\<close>) and of the criteria that \<^verbatim>\<open>cli.js\<close> builds.
  The JavaScript values the handler works on are numbers, texts and \<^verbatim>\<open>undefined\<close>.
\<close>

subsection \<open>Numbers\<close>

text \<open>
  A JavaScript number is a double. It is modelled by the value it stands for: \<^verbatim>\<open>NaN\<close>,
  one of the two infinities, or the rational that a finite double is. The sign of zero
  is not modelled.
\<close>

datatype jsnum = NaN | NInf | Fin rat | PInf

text \<open>
  The result of an operation is its exact result rounded to the nearest double, a tie
  going to the double with the even significand. A double has 53 bits of significand,
  its last place is no finer than 2 to the power -1074, and a rounded result of
  magnitude 2 to the power 1024 or more is an infinity. The number of bits of a positive
  integer gives the exponent; an integer of magnitude up to 2 to the power 53
  (9007199254740992) is a double as it is.
\<close>

function bit_length :: "int \<Rightarrow> int" where
  "bit_length n = (if n \<le> 0 then 0 else 1 + bit_length (n div 2))"
  by pat_completeness auto
termination
  by (relation "measure nat") auto

declare bit_length.simps [simp del]

definition floor_log2 :: "rat \<Rightarrow> int" where
  "floor_log2 q =
     (if 1 \<le> q then bit_length \<lfloor>q\<rfloor> - 1 else - bit_length (\<lceil>1 / q\<rceil> - 1))"

text \<open>2 to the power \<^verbatim>\<open>e\<close>, for an integer \<^verbatim>\<open>e\<close> of either sign, by repeated squaring.\<close>

function pow2 :: "int \<Rightarrow> rat" where
  "pow2 e =
     (if e < 0 then 1 / pow2 (- e)
      else if e = 0 then 1
      else if even e then (let h = pow2 (e div 2) in h * h)
      else 2 * pow2 (e - 1))"
  by pat_completeness auto
termination
  by (relation "measure (\<lambda>e. if e < 0 then nat (1 - e) else nat e)") auto

declare pow2.simps [simp del]

definition round_half_even :: "rat \<Rightarrow> int" where
  "round_half_even x =
     (let f = \<lfloor>x\<rfloor>; r = x - of_int f
      in if r < 1 / 2 then f else if 1 / 2 < r then f + 1 else if even f then f else f + 1)"

definition round_double :: "rat \<Rightarrow> jsnum" where
  "round_double q =
     (if of_int \<lfloor>q\<rfloor> = q \<and> \<bar>q\<bar> \<le> 9007199254740992 then Fin q
      else
        let e = max (floor_log2 \<bar>q\<bar> - 52) (- 1074);
            v = of_int (round_half_even (q / pow2 e)) * pow2 e
        in if pow2 1024 \<le> \<bar>v\<bar> then (if 0 < q then PInf else NInf) else Fin v)"

text \<open>\<^verbatim>\<open>x < y\<close> on numbers: false as soon as one side is \<^verbatim>\<open>NaN\<close>.\<close>

fun jslt :: "jsnum \<Rightarrow> jsnum \<Rightarrow> bool" where
  "jslt NaN y = False"
| "jslt x NaN = False"
| "jslt (Fin a) (Fin b) = (a < b)"
| "jslt NInf NInf = False"
| "jslt NInf y = True"
| "jslt x NInf = False"
| "jslt PInf y = False"
| "jslt x PInf = True"

text \<open>\<^verbatim>\<open>x > y\<close> is evaluated as \<^verbatim>\<open>y < x\<close>.\<close>

definition jsgt :: "jsnum \<Rightarrow> jsnum \<Rightarrow> bool" where
  "jsgt x y = jslt y x"

text \<open>\<^verbatim>\<open>x >= y\<close> and \<^verbatim>\<open>x <= y\<close>: also false as soon as one side is \<^verbatim>\<open>NaN\<close>.\<close>

fun jsle :: "jsnum \<Rightarrow> jsnum \<Rightarrow> bool" where
  "jsle NaN y = False"
| "jsle x NaN = False"
| "jsle (Fin a) (Fin b) = (a \<le> b)"
| "jsle NInf y = True"
| "jsle x PInf = True"
| "jsle x NInf = False"
| "jsle PInf y = False"

definition jsge :: "jsnum \<Rightarrow> jsnum \<Rightarrow> bool" where
  "jsge x y = jsle y x"

text \<open>\<^verbatim>\<open>x + y\<close>, \<^verbatim>\<open>-x\<close>, \<^verbatim>\<open>x - y\<close> and \<^verbatim>\<open>x / y\<close> on numbers.\<close>

fun jsadd :: "jsnum \<Rightarrow> jsnum \<Rightarrow> jsnum" where
  "jsadd NaN y = NaN"
| "jsadd x NaN = NaN"
| "jsadd (Fin a) (Fin b) = round_double (a + b)"
| "jsadd PInf NInf = NaN"
| "jsadd NInf PInf = NaN"
| "jsadd PInf y = PInf"
| "jsadd NInf y = NInf"
| "jsadd x PInf = PInf"
| "jsadd x NInf = NInf"

fun jsneg :: "jsnum \<Rightarrow> jsnum" where
  "jsneg NaN = NaN"
| "jsneg NInf = PInf"
| "jsneg (Fin a) = Fin (- a)"
| "jsneg PInf = NInf"

definition jssub :: "jsnum \<Rightarrow> jsnum \<Rightarrow> jsnum" where
  "jssub x y = jsadd x (jsneg y)"

text \<open>
  Division. A finite divisor 0 is taken as \<^verbatim>\<open>+0\<close>; \<^verbatim>\<open>computeStats\<close> never divides
  by a zero.
\<close>

fun jsdiv :: "jsnum \<Rightarrow> jsnum \<Rightarrow> jsnum" where
  "jsdiv NaN y = NaN"
| "jsdiv x NaN = NaN"
| "jsdiv (Fin a) (Fin b) =
     (if b = 0 then (if a = 0 then NaN else if 0 < a then PInf else NInf)
      else round_double (a / b))"
| "jsdiv (Fin a) y = Fin 0"
| "jsdiv PInf (Fin b) = (if 0 \<le> b then PInf else NInf)"
| "jsdiv NInf (Fin b) = (if 0 \<le> b then NInf else PInf)"
| "jsdiv x y = NaN"

text \<open>\<^verbatim>\<open>x === y\<close> on numbers: \<^verbatim>\<open>NaN\<close> is equal to nothing.\<close>

definition strict_eq :: "jsnum \<Rightarrow> jsnum \<Rightarrow> bool" where
  "strict_eq x y = (x \<noteq> NaN \<and> x = y)"

subsection \<open>Texts as numbers\<close>

text \<open>
  \<^verbatim>\<open>Number(s)\<close> on a text, and the conversion a comparison of a text with a number
  makes: the text is trimmed, the empty text is 0, and what is left must be a numeric
  literal (binary, octal or hexadecimal without sign; or signed decimal with an optional
  fraction and exponent; or a signed \<^verbatim>\<open>Infinity\<close>), else the result is \<^verbatim>\<open>NaN\<close>. The
  value of a literal is rounded to the nearest double.
  A character is a code unit below 256.
\<close>

definition is_digit :: "char \<Rightarrow> bool" where
  "is_digit c = (c \<in> set ''0123456789'')"

definition is_space :: "char \<Rightarrow> bool" where
  "is_space c = (c \<in> set [CHR 0x09, CHR 0x0A, CHR 0x0B, CHR 0x0C, CHR 0x0D, CHR 0x20, CHR 0xA0])"

definition trim :: "string \<Rightarrow> string" where
  "trim s = rev (dropWhile is_space (rev (dropWhile is_space s)))"

definition digit_value :: "char \<Rightarrow> nat" where
  "digit_value c =
     (if is_digit c then of_char c - 48
      else if c \<in> set ''abcdef'' then of_char c - 87
      else if c \<in> set ''ABCDEF'' then of_char c - 55
      else 16)"

definition digits_value :: "nat \<Rightarrow> string \<Rightarrow> nat" where
  "digits_value base ds = foldl (\<lambda>n c. base * n + digit_value c) 0 ds"

definition radix_digits :: "nat \<Rightarrow> string \<Rightarrow> jsnum" where
  "radix_digits base ds =
     (if ds \<noteq> [] \<and> list_all (\<lambda>c. digit_value c < base) ds
      then round_double (of_nat (digits_value base ds)) else NaN)"

definition radix_literal :: "string \<Rightarrow> jsnum option" where
  "radix_literal s =
     (case s of
        z # x # ds \<Rightarrow>
          if z \<noteq> CHR ''0'' then None
          else if x \<in> set ''bB'' then Some (radix_digits 2 ds)
          else if x \<in> set ''oO'' then Some (radix_digits 8 ds)
          else if x \<in> set ''xX'' then Some (radix_digits 16 ds)
          else None
      | _ \<Rightarrow> None)"

definition signed_integer :: "string \<Rightarrow> int option" where
  "signed_integer s =
     (let ds = (case s of [] \<Rightarrow> [] | c # t \<Rightarrow> if c = CHR ''+'' \<or> c = CHR ''-'' then t else s)
      in if ds = [] \<or> \<not> list_all is_digit ds then None
         else if s \<noteq> [] \<and> hd s = CHR ''-'' then Some (- int (digits_value 10 ds))
         else Some (int (digits_value 10 ds)))"

definition exponent_part :: "string \<Rightarrow> int option" where
  "exponent_part s =
     (case s of
        [] \<Rightarrow> Some 0
      | c # t \<Rightarrow> if c = CHR ''e'' \<or> c = CHR ''E'' then signed_integer t else None)"

definition scale10 :: "rat \<Rightarrow> int \<Rightarrow> rat" where
  "scale10 q e = (if 0 \<le> e then q * 10 ^ nat e else q / 10 ^ nat (- e))"

definition unsigned_decimal :: "string \<Rightarrow> jsnum" where
  "unsigned_decimal s =
     (if s = ''Infinity'' then PInf
      else
        let ip = takeWhile is_digit s;
            r = dropWhile is_digit s;
            dot = (r \<noteq> [] \<and> hd r = CHR ''.'');
            fp = (if dot then takeWhile is_digit (tl r) else []);
            r' = (if dot then dropWhile is_digit (tl r) else r)
        in if ip = [] \<and> fp = [] then NaN
           else case exponent_part r' of
                  None \<Rightarrow> NaN
                | Some e \<Rightarrow>
                    round_double
                      (scale10 (of_nat (digits_value 10 ip)
                                + of_nat (digits_value 10 fp) / 10 ^ length fp) e))"

definition decimal_literal :: "string \<Rightarrow> jsnum" where
  "decimal_literal s =
     (case s of
        [] \<Rightarrow> NaN
      | c # t \<Rightarrow>
          if c = CHR ''+'' then unsigned_decimal t
          else if c = CHR ''-'' then jsneg (unsigned_decimal t)
          else unsigned_decimal s)"

definition StringToNumber :: "string \<Rightarrow> jsnum" where
  "StringToNumber s =
     (let t = trim s
      in if t = [] then Fin 0
         else case radix_literal t of Some n \<Rightarrow> n | None \<Rightarrow> decimal_literal t)"

text \<open>
  The value of a property that holds a text or is missing (\<^verbatim>\<open>undefined\<close>), as a number:
  \<^verbatim>\<open>undefined\<close> converts to \<^verbatim>\<open>NaN\<close>.
\<close>

fun ToNumber :: "string option \<Rightarrow> jsnum" where
  "ToNumber None = NaN"
| "ToNumber (Some s) = StringToNumber s"

subsection \<open>Listings, criteria and the store\<close>

text \<open>
  A listing is the row object that \<^verbatim>\<open>parseCSV\<close> pushes: \<^verbatim>\<open>price\<close> holds a number, every
  other column of the row holds the text of its cell. \<^verbatim>\<open>createAirBnBDataHandler\<close> is
  not exported, so a handler only ever holds listings made by \<^verbatim>\<open>parseCSV\<close>, and the
  record fixes that shape. A column the row does not have reads as \<^verbatim>\<open>undefined\<close>
  (\<open>None\<close>).
\<close>

record listing =
  price :: jsnum
  columns :: "(string \<times> string) list"

definition column :: "listing \<Rightarrow> string \<Rightarrow> string option" where
  "column l k = map_of (columns l) k"

text \<open>The value of the property \<^verbatim>\<open>l[k]\<close> of a listing.\<close>

datatype jsval = Undefined | Str string | Num jsnum

definition get_prop :: "listing \<Rightarrow> string \<Rightarrow> jsval" where
  "get_prop l k =
     (if k = ''price'' then Num (price l)
      else case column l k of None \<Rightarrow> Undefined | Some s \<Rightarrow> Str s)"

text \<open>
  The criteria object of \<^verbatim>\<open>filterListings\<close>: six optional numbers, \<open>None\<close> for a bound
  that is \<^verbatim>\<open>undefined\<close>. \<^verbatim>\<open>cli.js\<close> fills each with \<^verbatim>\<open>Number(answer)\<close> or
  \<^verbatim>\<open>undefined\<close>.
\<close>

record criteria =
  minPrice :: "jsnum option"
  maxPrice :: "jsnum option"
  minRooms :: "jsnum option"
  maxRooms :: "jsnum option"
  minReview :: "jsnum option"
  maxReview :: "jsnum option"

text \<open>The default parameter \<^verbatim>\<open>{}\<close>: every bound is \<^verbatim>\<open>undefined\<close>.\<close>

definition no_criteria :: criteria where
  "no_criteria =
     \<lparr>minPrice = None, maxPrice = None, minRooms = None, maxRooms = None,
      minReview = None, maxReview = None\<rparr>"

text \<open>\<^verbatim>\<open>b !== undefined && x < b\<close> and \<^verbatim>\<open>b !== undefined && x > b\<close>.\<close>

fun is_below :: "jsnum \<Rightarrow> jsnum option \<Rightarrow> bool" where
  "is_below x None = False"
| "is_below x (Some b) = jslt x b"

fun is_above :: "jsnum \<Rightarrow> jsnum option \<Rightarrow> bool" where
  "is_above x None = False"
| "is_above x (Some b) = jsgt x b"

text \<open>
  The callback of \<^verbatim>\<open>_listings.filter\<close>. \<^verbatim>\<open>bedrooms\<close> and \<^verbatim>\<open>review_scores_rating\<close> are
  texts (or missing); comparing one with a number converts it to a number first.
\<close>

definition survives :: "criteria \<Rightarrow> listing \<Rightarrow> bool" where
  "survives c l =
     (if is_below (price l) (minPrice c) then False
      else if is_above (price l) (maxPrice c) then False
      else if is_below (ToNumber (column l ''bedrooms'')) (minRooms c) then False
      else if is_above (ToNumber (column l ''bedrooms'')) (maxRooms c) then False
      else if is_below (ToNumber (column l ''review_scores_rating'')) (minReview c) then False
      else if is_above (ToNumber (column l ''review_scores_rating'')) (maxReview c) then False
      else True)"

text \<open>
  The store is the variable \<^verbatim>\<open>_listings\<close> that the handler's methods close over. A
  method is a function of the store; one that returns a value returns it with the store
  it leaves behind.
\<close>

record store =
  listings :: "listing list"

definition filterListings :: "criteria \<Rightarrow> store \<Rightarrow> store" where
  "filterListings c s = s\<lparr>listings := filter (survives c) (listings s)\<rparr>"

definition getListings :: "store \<Rightarrow> listing list \<times> store" where
  "getListings s = (listings s, s)"

text \<open>
  The bounds as the specification words them: a supplied bound holds when the inclusive
  comparison \<^verbatim>\<open>x >= b\<close> (or \<^verbatim>\<open>x <= b\<close>) is true.
\<close>

fun spec_at_least :: "jsnum \<Rightarrow> jsnum option \<Rightarrow> bool" where
  "spec_at_least x None = True"
| "spec_at_least x (Some b) = jsge x b"

fun spec_at_most :: "jsnum \<Rightarrow> jsnum option \<Rightarrow> bool" where
  "spec_at_most x None = True"
| "spec_at_most x (Some b) = jsle x b"

definition spec_satisfies :: "criteria \<Rightarrow> listing \<Rightarrow> bool" where
  "spec_satisfies c l =
     (spec_at_least (price l) (minPrice c) \<and> spec_at_most (price l) (maxPrice c)
      \<and> spec_at_least (ToNumber (column l ''bedrooms'')) (minRooms c)
      \<and> spec_at_most (ToNumber (column l ''bedrooms'')) (maxRooms c)
      \<and> spec_at_least (ToNumber (column l ''review_scores_rating'')) (minReview c)
      \<and> spec_at_most (ToNumber (column l ''review_scores_rating'')) (maxReview c))"

text \<open>
  The bounds as the code applies them: a supplied bound also holds when the value or the
  bound is \<^verbatim>\<open>NaN\<close>, where no comparison is true.
\<close>

fun meets_min :: "jsnum \<Rightarrow> jsnum option \<Rightarrow> bool" where
  "meets_min x None = True"
| "meets_min x (Some b) = (x = NaN \<or> b = NaN \<or> jsge x b)"

fun meets_max :: "jsnum \<Rightarrow> jsnum option \<Rightarrow> bool" where
  "meets_max x None = True"
| "meets_max x (Some b) = (x = NaN \<or> b = NaN \<or> jsle x b)"

definition within_bounds :: "criteria \<Rightarrow> listing \<Rightarrow> bool" where
  "within_bounds c l =
     (meets_min (price l) (minPrice c) \<and> meets_max (price l) (maxPrice c)
      \<and> meets_min (ToNumber (column l ''bedrooms'')) (minRooms c)
      \<and> meets_max (ToNumber (column l ''bedrooms'')) (maxRooms c)
      \<and> meets_min (ToNumber (column l ''review_scores_rating'')) (minReview c)
      \<and> meets_max (ToNumber (column l ''review_scores_rating'')) (maxReview c))"

text \<open>A criteria object all of whose supplied bounds are \<^verbatim>\<open>NaN\<close>.\<close>

definition nan_or_omitted :: "jsnum option \<Rightarrow> bool" where
  "nan_or_omitted b = (b = None \<or> b = Some NaN)"

definition all_bounds_nan :: "criteria \<Rightarrow> bool" where
  "all_bounds_nan c =
     (nan_or_omitted (minPrice c) \<and> nan_or_omitted (maxPrice c)
      \<and> nan_or_omitted (minRooms c) \<and> nan_or_omitted (maxRooms c)
      \<and> nan_or_omitted (minReview c) \<and> nan_or_omitted (maxReview c))"

text \<open>
  A criteria object with its \<^verbatim>\<open>NaN\<close> bounds left out.
\<close>

fun omit_nan :: "jsnum option \<Rightarrow> jsnum option" where
  "omit_nan None = None"
| "omit_nan (Some b) = (if b = NaN then None else Some b)"

definition omit_nan_bounds :: "criteria \<Rightarrow> criteria" where
  "omit_nan_bounds c =
     \<lparr>minPrice = omit_nan (minPrice c), maxPrice = omit_nan (maxPrice c),
      minRooms = omit_nan (minRooms c), maxRooms = omit_nan (maxRooms c),
      minReview = omit_nan (minReview c), maxReview = omit_nan (maxReview c)\<rparr>"

text \<open>
  \<^verbatim>\<open>cli.js\<close>, choice 1: each answer becomes \<^verbatim>\<open>answer ? Number(answer) : undefined\<close>;
  the empty text is the only falsy text.
\<close>

definition cli_bound :: "string \<Rightarrow> jsnum option" where
  "cli_bound answer = (if answer = [] then None else Some (StringToNumber answer))"

definition cli_criteria :: "string \<Rightarrow> string \<Rightarrow> string \<Rightarrow> string \<Rightarrow> string \<Rightarrow> string \<Rightarrow> criteria" where
  "cli_criteria a1 a2 a3 a4 a5 a6 =
     \<lparr>minPrice = cli_bound a1, maxPrice = cli_bound a2,
      minRooms = cli_bound a3, maxRooms = cli_bound a4,
      minReview = cli_bound a5, maxReview = cli_bound a6\<rparr>"

text \<open>Listings and criteria free of \<^verbatim>\<open>NaN\<close>.\<close>

definition numeric_listing :: "listing \<Rightarrow> bool" where
  "numeric_listing l =
     (price l \<noteq> NaN \<and> ToNumber (column l ''bedrooms'') \<noteq> NaN
      \<and> ToNumber (column l ''review_scores_rating'') \<noteq> NaN)"

definition numeric_criteria :: "criteria \<Rightarrow> bool" where
  "numeric_criteria c = (omit_nan_bounds c = c)"

subsection \<open>Reading the file\<close>

text \<open>
  \<^verbatim>\<open>parseCSV\<close> pipes the file through the \<^verbatim>\<open>csv-parser\<close> package, which is not part of
  the repository. The model starts from what the stream emits: a \<^verbatim>\<open>data\<close> event per row,
  carrying an object that maps the header's names to the texts of the row's cells (a
  list of pairs in which a name is looked up at its first place), or an \<^verbatim>\<open>error\<close>
  event; the end of the list is the \<^verbatim>\<open>end\<close> event.
\<close>

type_synonym row = "(string \<times> string) list"

datatype event = Data row | Failure string

datatype error = TypeError | ReadError string

text \<open>\<^verbatim>\<open>Number(text.replace(/[^0-9.]/g, ''))\<close>.\<close>

definition strip_non_numeric :: "string \<Rightarrow> string" where
  "strip_non_numeric t = filter (\<lambda>c. is_digit c \<or> c = CHR ''.'') t"

definition coerce_price :: "string \<Rightarrow> jsnum" where
  "coerce_price t = StringToNumber (strip_non_numeric t)"

text \<open>
  The \<^verbatim>\<open>data\<close> handler. \<^verbatim>\<open>row.price.replace\<close> throws a \<^verbatim>\<open>TypeError\<close> when the row has no
  \<^verbatim>\<open>price\<close>; otherwise \<^verbatim>\<open>row.price\<close> is overwritten with the number and the row is
  pushed.
\<close>

definition on_data :: "row \<Rightarrow> error + listing" where
  "on_data r =
     (case map_of r ''price'' of
        None \<Rightarrow> Inl TypeError
      | Some t \<Rightarrow> Inr \<lparr>price = coerce_price t, columns = AList.delete ''price'' r\<rparr>)"

fun read_events :: "event list \<Rightarrow> listing list \<Rightarrow> error + listing list" where
  "read_events [] results = Inr results"
| "read_events (Data r # es) results =
     (case on_data r of
        Inl e \<Rightarrow> Inl e
      | Inr l \<Rightarrow> read_events es (results @ [l]))"
| "read_events (Failure msg # es) results = Inl (ReadError msg)"

definition parseCSV :: "event list \<Rightarrow> error + listing list" where
  "parseCSV es = read_events es []"

text \<open>\<^verbatim>\<open>loadAirBnBData\<close>: the handler starts with a copy of the parsed listings.\<close>

definition loadAirBnBData :: "event list \<Rightarrow> error + store" where
  "loadAirBnBData es =
     (case parseCSV es of
        Inl e \<Rightarrow> Inl e
      | Inr parsedListings \<Rightarrow> Inr \<lparr>listings = parsedListings\<rparr>)"

text \<open>\<^verbatim>\<open>typeof v === 'number'\<close>.\<close>

fun is_number :: "jsval \<Rightarrow> bool" where
  "is_number (Num n) = True"
| "is_number v = False"

fun text_or_undefined :: "string option \<Rightarrow> jsval" where
  "text_or_undefined None = Undefined"
| "text_or_undefined (Some t) = Str t"

subsection \<open>Statistics\<close>

record stats =
  count :: nat
  averagePricePerRoom :: jsnum

definition computeStats :: "store \<Rightarrow> stats \<times> store" where
  "computeStats s =
     (let count = length (listings s);
          averagePricePerRoom =
            (if count > 0 then
               let totalPrice = foldl (\<lambda>sum l. jsadd sum (price l)) (Fin 0) (listings s);
                   totalRooms = foldl (\<lambda>sum l. jsadd sum (ToNumber (column l ''bedrooms'')))
                                  (Fin 0) (listings s)
               in if strict_eq totalRooms (Fin 0) then Fin 0 else jsdiv totalPrice totalRooms
             else Fin 0)
      in (\<lparr>count = count, averagePricePerRoom = averagePricePerRoom\<rparr>, s))"

text \<open>
  The sum of a list of numbers: they are added to 0 one after another, from the first to
  the last, each addition rounding its result.
\<close>

fun total_from :: "jsnum \<Rightarrow> jsnum list \<Rightarrow> jsnum" where
  "total_from a [] = a"
| "total_from a (x # xs) = total_from (jsadd a x) xs"

definition total :: "jsnum list \<Rightarrow> jsnum" where
  "total xs = total_from (Fin 0) xs"

text \<open>A natural number as a number.\<close>

definition number_of_nat :: "nat \<Rightarrow> jsnum" where
  "number_of_nat n = Fin (of_nat n)"

definition bedrooms_number :: "listing \<Rightarrow> jsnum" where
  "bedrooms_number l = ToNumber (column l ''bedrooms'')"

subsection \<open>Listings by host\<close>

text \<open>\<^verbatim>\<open>listing.host_id || 'unknown'\<close>: a missing and an empty text are falsy.\<close>

definition hostKey :: "listing \<Rightarrow> string" where
  "hostKey l =
     (case column l ''host_id'' of
        None \<Rightarrow> ''unknown''
      | Some h \<Rightarrow> if h = [] then ''unknown'' else h)"

text \<open>
  \<^verbatim>\<open>hostMap\<close> starts as the object literal \<^verbatim>\<open>{}\<close>, whose prototype is
  \<^verbatim>\<open>Object.prototype\<close>. The model keeps its own properties, in the order of their
  creation. A value stored under a key is a count or, once a member of the prototype
  has been read, a text; a count is a natural number, since an array holds fewer than
  4294967296 listings and adding 1 to a count is exact up to 9007199254740992.
  Reading \<^verbatim>\<open>acc[hostKey]\<close> finds the own property, else the member of
  \<^verbatim>\<open>Object.prototype\<close> of that name (a function, or the prototype itself for
  \<^verbatim>\<open>__proto__\<close>), else \<^verbatim>\<open>undefined\<close>.
\<close>

datatype tally = Count nat | Text string

definition object_prototype_names :: "string list" where
  "object_prototype_names =
     [''constructor'', ''__defineGetter__'', ''__defineSetter__'', ''hasOwnProperty'',
      ''__lookupGetter__'', ''__lookupSetter__'', ''isPrototypeOf'', ''propertyIsEnumerable'',
      ''toString'', ''valueOf'', ''__proto__'', ''toLocaleString'']"

text \<open>The text that \<^verbatim>\<open>+\<close> makes of the inherited member, as Node prints it.\<close>

definition inherited_text :: "string \<Rightarrow> string" where
  "inherited_text k =
     (if k = ''__proto__'' then ''[object Object]''
      else if k = ''constructor'' then ''function Object() { [native code] }''
      else ''function '' @ k @ ''() { [native code] }'')"

text \<open>
  The reducer: \<^verbatim>\<open>acc[hostKey] = (acc[hostKey] || 0) + 1\<close>. A count 0 and an empty text
  are falsy; \<^verbatim>\<open>+\<close> with a text or a function on the left concatenates. The assignment
  creates or overwrites an own property, except under \<^verbatim>\<open>__proto__\<close>, whose inherited
  setter ignores a value that is not an object.
\<close>

definition count_host :: "(string \<times> tally) list \<Rightarrow> listing \<Rightarrow> (string \<times> tally) list" where
  "count_host acc l =
     (let k = hostKey l;
          v = (case map_of acc k of
                 Some (Count n) \<Rightarrow> if n = 0 then Count (0 + 1) else Count (n + 1)
               | Some (Text t) \<Rightarrow> if t = [] then Count (0 + 1) else Text (t @ ''1'')
               | None \<Rightarrow>
                   if k \<in> set object_prototype_names then Text (inherited_text k @ ''1'')
                   else Count (0 + 1))
      in if k = ''__proto__'' then acc else AList.update k v acc)"

text \<open>
  \<^verbatim>\<open>Object.entries\<close>: the keys that are array indices (canonical decimal texts of the
  integers up to 4294967294) come first, in ascending numeric order, then the other
  keys in the order of their creation.
\<close>

definition is_array_index :: "string \<Rightarrow> bool" where
  "is_array_index k =
     (k \<noteq> [] \<and> list_all is_digit k \<and> (k = ''0'' \<or> hd k \<noteq> CHR ''0'')
      \<and> digits_value 10 k < 4294967295)"

definition entries :: "(string \<times> 'v) list \<Rightarrow> (string \<times> 'v) list" where
  "entries obj =
     sort_key (\<lambda>e. digits_value 10 (fst e)) (filter (\<lambda>e. is_array_index (fst e)) obj)
     @ filter (\<lambda>e. \<not> is_array_index (fst e)) obj"

record host_count =
  host_id :: string
  count :: tally

text \<open>
  \<^verbatim>\<open>(a, b) => b.count - a.count\<close>: the operands of \<^verbatim>\<open>-\<close> are converted to numbers.
\<close>

fun tally_number :: "tally \<Rightarrow> jsnum" where
  "tally_number (Count n) = Fin (of_nat n)"
| "tally_number (Text t) = StringToNumber t"

definition by_count_descending :: "host_count \<Rightarrow> host_count \<Rightarrow> jsnum" where
  "by_count_descending a b =
     jssub (tally_number (host_count.count b)) (tally_number (host_count.count a))"

text \<open>
  \<^verbatim>\<open>Array.prototype.sort\<close> with a comparator is stable: an element goes behind another
  one only when the comparator says so with a positive number (\<^verbatim>\<open>NaN\<close> counts as 0).
  The model sorts by insertion. Where the comparator is not consistent, which takes a
  text among the counts, the standard leaves the order to the implementation.
\<close>

fun insert_sorted :: "('a \<Rightarrow> 'a \<Rightarrow> jsnum) \<Rightarrow> 'a \<Rightarrow> 'a list \<Rightarrow> 'a list" where
  "insert_sorted cmp x [] = [x]"
| "insert_sorted cmp x (y # ys) =
     (if jsgt (cmp x y) (Fin 0) then y # insert_sorted cmp x ys else x # y # ys)"

definition js_sort :: "('a \<Rightarrow> 'a \<Rightarrow> jsnum) \<Rightarrow> 'a list \<Rightarrow> 'a list" where
  "js_sort cmp xs = foldr (insert_sorted cmp) xs []"

definition computeListingsByHost :: "store \<Rightarrow> host_count list \<times> store" where
  "computeListingsByHost s =
     (let hostMap = foldl count_host [] (listings s);
          ranking = js_sort by_count_descending
                      (map (\<lambda>(host_id, count). \<lparr>host_id = host_id, count = count\<rparr>)
                         (entries hostMap))
      in (ranking, s))"

text \<open>The number of listings of a host key, and a tally read as that number.\<close>

definition listings_of_host :: "listing list \<Rightarrow> string \<Rightarrow> nat" where
  "listings_of_host ls k = length (filter (\<lambda>l. hostKey l = k) ls)"

fun counted :: "tally \<Rightarrow> nat" where
  "counted (Count n) = n"
| "counted (Text t) = 0"

text \<open>
  A host map that holds counts only, the count it holds for a key, and the order of a
  ranking: no entry has a smaller count than one that follows it.
\<close>

definition counts_only :: "(string \<times> tally) list \<Rightarrow> bool" where
  "counts_only acc = (\<forall>k v. map_of acc k = Some v \<longrightarrow> (\<exists>n. v = Count n))"

definition counted_in :: "(string \<times> tally) list \<Rightarrow> string \<Rightarrow> nat" where
  "counted_in acc k = (case map_of acc k of None \<Rightarrow> 0 | Some v \<Rightarrow> counted v)"

definition by_count :: "host_count \<Rightarrow> host_count \<Rightarrow> bool" where
  "by_count a b = (counted (host_count.count b) \<le> counted (host_count.count a))"

subsection \<open>Export\<close>

text \<open>
  \<^verbatim>\<open>exportResults\<close> writes \<^verbatim>\<open>JSON.stringify(data, null, 2)\<close>. The model keeps the JSON
  document that the text denotes, not its characters: the layout (two spaces of
  indentation) and the digits of a number are not modelled, and a number literal stands
  for the number it was printed from. What decides the value of a member is modelled: a
  finite number is written as a number literal, \<^verbatim>\<open>NaN\<close> and the infinities are written
  as \<^verbatim>\<open>null\<close>.
\<close>

datatype json = JNull | JNumber rat | JString string | JArray "json list"
  | JObject "(string \<times> json) list"

fun json_of_number :: "jsnum \<Rightarrow> json" where
  "json_of_number (Fin q) = JNumber q"
| "json_of_number x = JNull"

fun json_of_tally :: "tally \<Rightarrow> json" where
  "json_of_tally (Count n) = JNumber (of_nat n)"
| "json_of_tally (Text t) = JString t"

text \<open>The data that \<^verbatim>\<open>cli.js\<close> exports: a stats object or a ranking.\<close>

datatype export_data = Stats stats | Ranking "host_count list"

fun JSON_stringify :: "export_data \<Rightarrow> json" where
  "JSON_stringify (Stats st) =
     JObject [(''count'', json_of_number (Fin (of_nat (stats.count st)))),
              (''averagePricePerRoom'', json_of_number (averagePricePerRoom st))]"
| "JSON_stringify (Ranking r) =
     JArray (map (\<lambda>e. JObject [(''host_id'', JString (host_id e)),
                                  (''count'', json_of_tally (host_count.count e))]) r)"

text \<open>
  \<^verbatim>\<open>writeFile\<close> creates or overwrites the file at the path, or fails; which paths can
  be written is a parameter.
\<close>

datatype write_error = WriteError

definition exportResults ::
  "(string \<Rightarrow> bool) \<Rightarrow> string \<Rightarrow> export_data \<Rightarrow> (string \<rightharpoonup> json)
    \<Rightarrow> write_error + (string \<rightharpoonup> json)" where
  "exportResults writable outputPath data files =
     (let jsonString = JSON_stringify data
      in if writable outputPath then Inr (files(outputPath \<mapsto> jsonString)) else Inl WriteError)"

text \<open>
  Modelled from the spec: the decoder of an exported file is not part of the repository
  (nothing in it reads an export back). Decoding gives the document; the pair is read
  from its members \<^verbatim>\<open>count\<close> and \<^verbatim>\<open>averagePricePerRoom\<close>, a number literal as its
  number and anything else as no number (\<open>None\<close>).
\<close>

fun number_of_json :: "json \<Rightarrow> jsnum option" where
  "number_of_json (JNumber q) = Some (Fin q)"
| "number_of_json j = None"

definition decode_stats :: "json \<Rightarrow> (jsnum option \<times> jsnum option) option" where
  "decode_stats doc =
     (case doc of
        JObject members \<Rightarrow>
          (case (map_of members ''count'', map_of members ''averagePricePerRoom'') of
             (Some c, Some a) \<Rightarrow> Some (number_of_json c, number_of_json a)
           | _ \<Rightarrow> None)
      | _ \<Rightarrow> None)"

text \<open>The pair of numbers of a stats object.\<close>

definition stats_pair :: "stats \<Rightarrow> jsnum option \<times> jsnum option" where
  "stats_pair st = (Some (Fin (of_nat (stats.count st))), Some (averagePricePerRoom st))"

subsection \<open>Example data\<close>

text \<open>A row with the columns the handler reads, after \<^verbatim>\<open>parseCSV\<close>.\<close>

definition example_listing :: "rat \<Rightarrow> string \<Rightarrow> string \<Rightarrow> string \<Rightarrow> listing" where
  "example_listing p host rooms review =
     \<lparr>price = Fin p,
      columns = [(''host_id'', host), (''bedrooms'', rooms), (''review_scores_rating'', review)]\<rparr>"

text \<open>Two rows as the stream emits them.\<close>

definition example_rows :: "row list" where
  "example_rows =
     [[(''id'', ''7''), (''price'', ''$100.00''), (''bedrooms'', ''2'')],
      [(''id'', ''8''), (''price'', ''$1,250.00''), (''bedrooms'', ''3'')]]"

text \<open>
  The specification's scenario: prices 100, 200, 300 and bedrooms 1, 2, 3, filtered by
  \<^verbatim>\<open>minPrice = 150\<close>.
\<close>

definition example_store :: store where
  "example_store =
     \<lparr>listings = [example_listing 100 ''A'' ''1'' ''80'', example_listing 200 ''A'' ''2'' ''90'',
                   example_listing 300 ''B'' ''3'' ''95'']\<rparr>"

definition example_filtered :: store where
  "example_filtered = filterListings (no_criteria\<lparr>minPrice := Some (Fin 150)\<rparr>) example_store"

section \<open>Properties of the filter\<close>

lemma not_jslt_iff: "(\<not> jslt x b) = (x = NaN \<or> b = NaN \<or> jsle b x)"
  by (cases x; cases b) auto

lemma below_iff: "(\<not> is_below x bo) = meets_min x bo"
  by (cases bo) (simp_all add: not_jslt_iff jsge_def)

lemma above_iff: "(\<not> is_above x bo) = meets_max x bo"
  by (cases bo) (simp_all add: not_jslt_iff jsgt_def, blast)

lemma survives_iff: "survives c l = within_bounds c l"
  unfolding survives_def within_bounds_def
  by (simp only: below_iff [symmetric] above_iff [symmetric]) auto

lemma below_nan_or_omitted: "nan_or_omitted bo \<Longrightarrow> \<not> is_below x bo"
  by (cases x) (auto simp: nan_or_omitted_def)

lemma above_nan_or_omitted: "nan_or_omitted bo \<Longrightarrow> \<not> is_above x bo"
  by (cases x) (auto simp: nan_or_omitted_def jsgt_def)

lemma survives_eq: "survives c = within_bounds c"
  by (rule ext) (rule survives_iff)

lemma omit_nan_below: "is_below x (omit_nan bo) = is_below x bo"
  by (cases bo; cases x) auto

lemma omit_nan_above: "is_above x (omit_nan bo) = is_above x bo"
  by (cases bo; cases x) (auto simp: jsgt_def)

lemma survives_omit_nan: "survives (omit_nan_bounds c) = survives c"
  by (rule ext) (simp add: survives_def omit_nan_bounds_def omit_nan_below omit_nan_above)

lemma survives_no_criteria: "survives no_criteria l"
  by (simp add: survives_def no_criteria_def)

lemma survives_all_bounds_nan: "all_bounds_nan c \<Longrightarrow> survives c l"
  by (simp add: survives_def all_bounds_nan_def below_nan_or_omitted above_nan_or_omitted)

lemma meets_min_numeric:
  "x \<noteq> NaN \<Longrightarrow> omit_nan bo = bo \<Longrightarrow> meets_min x bo = spec_at_least x bo"
  by (cases bo) (auto split: if_splits)

lemma meets_max_numeric:
  "x \<noteq> NaN \<Longrightarrow> omit_nan bo = bo \<Longrightarrow> meets_max x bo = spec_at_most x bo"
  by (cases bo) (auto split: if_splits)

lemma numeric_criteria_bounds:
  assumes "numeric_criteria c"
  shows "omit_nan (minPrice c) = minPrice c" "omit_nan (maxPrice c) = maxPrice c"
    "omit_nan (minRooms c) = minRooms c" "omit_nan (maxRooms c) = maxRooms c"
    "omit_nan (minReview c) = minReview c" "omit_nan (maxReview c) = maxReview c"
proof -
  have eq: "omit_nan_bounds c = c"
    using assms by (simp add: numeric_criteria_def)
  show "omit_nan (minPrice c) = minPrice c"
    using arg_cong [OF eq, of minPrice] by (simp add: omit_nan_bounds_def)
  show "omit_nan (maxPrice c) = maxPrice c"
    using arg_cong [OF eq, of maxPrice] by (simp add: omit_nan_bounds_def)
  show "omit_nan (minRooms c) = minRooms c"
    using arg_cong [OF eq, of minRooms] by (simp add: omit_nan_bounds_def)
  show "omit_nan (maxRooms c) = maxRooms c"
    using arg_cong [OF eq, of maxRooms] by (simp add: omit_nan_bounds_def)
  show "omit_nan (minReview c) = minReview c"
    using arg_cong [OF eq, of minReview] by (simp add: omit_nan_bounds_def)
  show "omit_nan (maxReview c) = maxReview c"
    using arg_cong [OF eq, of maxReview] by (simp add: omit_nan_bounds_def)
qed

lemma within_bounds_numeric:
  assumes "numeric_criteria c" and "numeric_listing l"
  shows "within_bounds c l = spec_satisfies c l"
  using assms(2) numeric_criteria_bounds [OF assms(1)]
  by (simp add: within_bounds_def spec_satisfies_def numeric_listing_def
      meets_min_numeric meets_max_numeric)

lemma listings_filterListings:
  "listings (filterListings c s) = filter (survives c) (listings s)"
  by (simp add: filterListings_def)

lemma fold_filterListings:
  "listings (fold filterListings cs s) = filter (\<lambda>l. list_all (\<lambda>c. survives c l) cs) (listings s)"
proof (induction cs arbitrary: s)
  case Nil
  show ?case by simp
next
  case (Cons c cs)
  have "listings (fold filterListings (c # cs) s)
      = filter (\<lambda>l. list_all (\<lambda>c. survives c l) cs) (filter (survives c) (listings s))"
    by (simp add: Cons.IH listings_filterListings)
  also have "\<dots> = filter (\<lambda>l. list_all (\<lambda>c. survives c l) (c # cs)) (listings s)"
    by (simp add: conj_commute)
  finally show ?case .
qed

lemma subseq_filterListings: "subseq (listings (filterListings c s)) (listings s)"
  by (simp add: listings_filterListings)

lemma length_filterListings: "length (listings (filterListings c s)) \<le> length (listings s)"
  by (simp add: listings_filterListings)

lemma fold_filterListings_snoc:
  "fold filterListings (cs @ [c]) s = filterListings c (fold filterListings cs s)"
  by simp

subsection \<open>What the filter keeps\<close>

text \<open>
  C1 (amended). For every store and every criteria object, \<^verbatim>\<open>filterListings\<close> keeps, in
  their order, exactly the listings that meet every supplied bound, where a supplied
  bound is met when the inclusive comparison holds or when the listing's value or the
  bound is \<^verbatim>\<open>NaN\<close> (a missing or non-numeric text, a non-numeric criteria entry); an
  omitted bound imposes no constraint. When no listing value and no bound is \<^verbatim>\<open>NaN\<close>,
  the listings kept are exactly those that satisfy the inclusive conjunction
  \<^verbatim>\<open>price >= minPrice\<close>, \<^verbatim>\<open>price <= maxPrice\<close>, \<^verbatim>\<open>bedrooms >= minRooms\<close>,
  \<^verbatim>\<open>bedrooms <= maxRooms\<close>, \<^verbatim>\<open>review_scores_rating >= minReview\<close>,
  \<^verbatim>\<open>review_scores_rating <= maxReview\<close> of the supplied bounds.
\<close>

theorem filterListings_keeps_exactly:
  "listings (filterListings c s) = filter (within_bounds c) (listings s)
   \<and> (numeric_criteria c \<and> list_all numeric_listing (listings s) \<longrightarrow>
        listings (filterListings c s) = filter (spec_satisfies c) (listings s))"
proof (intro conjI impI)
  show "listings (filterListings c s) = filter (within_bounds c) (listings s)"
    by (simp add: listings_filterListings survives_eq)
next
  assume a: "numeric_criteria c \<and> list_all numeric_listing (listings s)"
  have "filter (survives c) (listings s) = filter (spec_satisfies c) (listings s)"
  proof (rule filter_cong [OF refl])
    fix l assume "l \<in> set (listings s)"
    with a have "numeric_listing l" by (simp add: list_all_iff)
    with a show "survives c l = spec_satisfies c l"
      by (simp add: survives_iff within_bounds_numeric)
  qed
  then show "listings (filterListings c s) = filter (spec_satisfies c) (listings s)"
    by (simp add: listings_filterListings)
qed

theorem filterListings_keeps_exactly_witness:
  "numeric_criteria (no_criteria\<lparr>minPrice := Some (Fin 150)\<rparr>)
   \<and> list_all numeric_listing
        [\<lparr>price = Fin 100, columns = [(''bedrooms'', ''1''), (''review_scores_rating'', ''80'')]\<rparr>,
         \<lparr>price = Fin 200, columns = [(''bedrooms'', ''2''), (''review_scores_rating'', ''90'')]\<rparr>,
         \<lparr>price = Fin 300, columns = [(''bedrooms'', ''3''), (''review_scores_rating'', '''')]\<rparr>]
   \<and> listings (filterListings (no_criteria\<lparr>minPrice := Some (Fin 150)\<rparr>)
        \<lparr>listings =
          [\<lparr>price = Fin 100, columns = [(''bedrooms'', ''1''), (''review_scores_rating'', ''80'')]\<rparr>,
           \<lparr>price = Fin 200, columns = [(''bedrooms'', ''2''), (''review_scores_rating'', ''90'')]\<rparr>,
           \<lparr>price = Fin 300, columns = [(''bedrooms'', ''3''), (''review_scores_rating'', '''')]\<rparr>]\<rparr>)
     = [\<lparr>price = Fin 200, columns = [(''bedrooms'', ''2''), (''review_scores_rating'', ''90'')]\<rparr>,
        \<lparr>price = Fin 300, columns = [(''bedrooms'', ''3''), (''review_scores_rating'', '''')]\<rparr>]"
  (is "?nc \<and> ?nl \<and> listings (filterListings ?c ?s) = ?r")
proof -
  have nc: ?nc by code_simp
  have nl: ?nl by code_simp
  have nl': "list_all numeric_listing (listings ?s)" by code_simp
  have r: "filter (spec_satisfies ?c) (listings ?s) = ?r" by code_simp
  have eq: "listings (filterListings ?c ?s) = filter (spec_satisfies ?c) (listings ?s)"
    using filterListings_keeps_exactly [of ?c ?s] nc nl' by blast
  show ?thesis
    by (rule conjI [OF nc conjI [OF nl trans [OF eq r]]])
qed

text \<open>
  The claim as it is worded fails where a value is not a number: a listing whose review
  score is the text \<^verbatim>\<open>N/A\<close> is kept by \<^verbatim>\<open>minReview = 90\<close>, since \<^verbatim>\<open>"N/A" < 90\<close> is false,
  while \<^verbatim>\<open>"N/A" >= 90\<close> is false too.
\<close>

theorem filterListings_keeps_exactly_counterexample:
  "listings (filterListings (no_criteria\<lparr>minReview := Some (Fin 90)\<rparr>)
      \<lparr>listings = [\<lparr>price = Fin 100,
                      columns = [(''bedrooms'', ''2''), (''review_scores_rating'', ''N/A'')]\<rparr>]\<rparr>)
     = [\<lparr>price = Fin 100, columns = [(''bedrooms'', ''2''), (''review_scores_rating'', ''N/A'')]\<rparr>]
   \<and> filter (spec_satisfies (no_criteria\<lparr>minReview := Some (Fin 90)\<rparr>))
        [\<lparr>price = Fin 100, columns = [(''bedrooms'', ''2''), (''review_scores_rating'', ''N/A'')]\<rparr>]
     = []"
  by code_simp

subsection \<open>Filtering without criteria\<close>

text \<open>
  C7. For every store, \<^verbatim>\<open>filterListings\<close> called with no criteria (every one of the six
  bounds omitted) leaves the store's listing set unchanged.
\<close>

theorem filterListings_no_criteria_identity: "filterListings no_criteria s = s"
  by (simp add: filterListings_def survives_no_criteria)

subsection \<open>Bounds that are not numbers\<close>

text \<open>
  C10. For every store, \<^verbatim>\<open>filterListings\<close> called with criteria in which every supplied
  bound is \<^verbatim>\<open>NaN\<close> leaves the listing set unchanged; and in general a \<^verbatim>\<open>NaN\<close> bound
  behaves exactly like an omitted one: leaving the \<^verbatim>\<open>NaN\<close> bounds out of any criteria
  object does not change what the filter does.
\<close>

theorem filterListings_nan_bound_is_omitted:
  "(all_bounds_nan c \<longrightarrow> filterListings c s = s)
   \<and> filterListings c s = filterListings (omit_nan_bounds c) s"
  by (simp add: filterListings_def survives_omit_nan survives_all_bounds_nan)

theorem filterListings_nan_bound_is_omitted_witness:
  "all_bounds_nan (cli_criteria ''abc'' [] [] ''two'' [] ''n/a'')
   \<and> filterListings (cli_criteria ''abc'' [] [] ''two'' [] ''n/a'')
        \<lparr>listings = [example_listing 100 ''A'' ''1'' ''80'', example_listing 200 ''B'' ''2'' ''90'']\<rparr>
     = \<lparr>listings = [example_listing 100 ''A'' ''1'' ''80'', example_listing 200 ''B'' ''2'' ''90'']\<rparr>"
  (is "?n \<and> filterListings ?c ?s = ?s")
proof -
  have n: ?n by code_simp
  have "filterListings ?c ?s = ?s"
    using filterListings_nan_bound_is_omitted [of ?c ?s] n by blast
  with n show ?thesis by (rule conjI)
qed

subsection \<open>Sequences of filter calls\<close>

text \<open>
  C6 (amended). For every sequence of \<^verbatim>\<open>filterListings\<close> calls against one store, the
  listing set after each call is a subsequence of the set before it, so its size never
  grows; the set after the whole sequence is the original set filtered by the
  conjunction of the calls, each call working on what the calls before it left; and
  every listing that survives the sequence meets every supplied bound of every call,
  where a bound is met when the inclusive comparison holds or when the listing's value
  or the bound is \<^verbatim>\<open>NaN\<close>.
\<close>

theorem filter_sequence_cumulative:
  "(\<forall>k<length cs.
      subseq (listings (fold filterListings (take (Suc k) cs) s))
             (listings (fold filterListings (take k cs) s))
      \<and> length (listings (fold filterListings (take (Suc k) cs) s))
          \<le> length (listings (fold filterListings (take k cs) s)))
   \<and> fold filterListings (cs @ [c]) s = filterListings c (fold filterListings cs s)
   \<and> listings (fold filterListings cs s)
       = filter (\<lambda>l. list_all (\<lambda>c. within_bounds c l) cs) (listings s)
   \<and> (\<forall>l\<in>set (listings (fold filterListings cs s)). \<forall>c\<in>set cs. within_bounds c l)"
proof (intro conjI allI impI ballI)
  fix k assume k: "k < length cs"
  then have step: "fold filterListings (take (Suc k) cs) s
      = filterListings (cs ! k) (fold filterListings (take k cs) s)"
    by (simp add: take_Suc_conv_app_nth)
  show "subseq (listings (fold filterListings (take (Suc k) cs) s))
          (listings (fold filterListings (take k cs) s))"
    unfolding step by (rule subseq_filterListings)
  show "length (listings (fold filterListings (take (Suc k) cs) s))
          \<le> length (listings (fold filterListings (take k cs) s))"
    unfolding step by (rule length_filterListings)
next
  show "fold filterListings (cs @ [c]) s = filterListings c (fold filterListings cs s)"
    by (rule fold_filterListings_snoc)
next
  show "listings (fold filterListings cs s)
      = filter (\<lambda>l. list_all (\<lambda>c. within_bounds c l) cs) (listings s)"
    by (simp add: fold_filterListings survives_iff)
next
  fix l c assume "l \<in> set (listings (fold filterListings cs s))" and "c \<in> set cs"
  then show "within_bounds c l"
    by (simp add: fold_filterListings survives_iff list_all_iff)
qed

theorem filter_sequence_cumulative_witness:
  "listings (fold filterListings
       [no_criteria\<lparr>minPrice := Some (Fin 150)\<rparr>, no_criteria\<lparr>maxRooms := Some (Fin 2)\<rparr>]
       \<lparr>listings = [example_listing 100 ''A'' ''1'' ''80'', example_listing 200 ''B'' ''2'' ''90'',
                     example_listing 300 ''C'' ''3'' ''95'']\<rparr>)
     = [example_listing 200 ''B'' ''2'' ''90'']
   \<and> within_bounds (no_criteria\<lparr>minPrice := Some (Fin 150)\<rparr>) (example_listing 200 ''B'' ''2'' ''90'')
   \<and> within_bounds (no_criteria\<lparr>maxRooms := Some (Fin 2)\<rparr>) (example_listing 200 ''B'' ''2'' ''90'')"
  (is "listings (fold filterListings [?c1, ?c2] ?s) = [?l] \<and> ?w1 \<and> ?w2")
proof -
  have r: "listings (fold filterListings [?c1, ?c2] ?s) = [?l]" by code_simp
  have "\<forall>l\<in>set (listings (fold filterListings [?c1, ?c2] ?s)). \<forall>c\<in>set [?c1, ?c2]. within_bounds c l"
    using filter_sequence_cumulative [of "[?c1, ?c2]" ?s] by blast
  then have "\<forall>c\<in>set [?c1, ?c2]. within_bounds c ?l"
    unfolding r by (rule bspec) simp
  then have w: "?w1 \<and> ?w2"
    by (simp only: list.set ball_simps)
  from r w show ?thesis by (rule conjI)
qed

text \<open>
  The claim as it is worded fails where a value is not a number: a listing of a file
  without a \<^verbatim>\<open>bedrooms\<close> column survives \<^verbatim>\<open>minRooms = 2\<close> followed by \<^verbatim>\<open>minPrice = 50\<close>,
  since \<^verbatim>\<open>undefined < 2\<close> is false, while \<^verbatim>\<open>undefined >= 2\<close> is false too.
\<close>

theorem filter_sequence_cumulative_counterexample:
  "listings (fold filterListings
       [no_criteria\<lparr>minRooms := Some (Fin 2)\<rparr>, no_criteria\<lparr>minPrice := Some (Fin 50)\<rparr>]
       \<lparr>listings = [\<lparr>price = Fin 100, columns = [(''host_id'', ''A'')]\<rparr>]\<rparr>)
     = [\<lparr>price = Fin 100, columns = [(''host_id'', ''A'')]\<rparr>]
   \<and> \<not> spec_satisfies (no_criteria\<lparr>minRooms := Some (Fin 2)\<rparr>)
         \<lparr>price = Fin 100, columns = [(''host_id'', ''A'')]\<rparr>"
  by code_simp

section \<open>Properties of the parser\<close>

lemmas to_number_defs =
  coerce_price_def strip_non_numeric_def StringToNumber_def trim_def is_space_def
  radix_literal_def radix_digits_def decimal_literal_def unsigned_decimal_def is_digit_def
  exponent_part_def signed_integer_def digits_value_def digit_value_def scale10_def
  round_double_def

lemma round_double_int:
  "\<bar>i\<bar> \<le> 9007199254740992 \<Longrightarrow> round_double (of_int i) = Fin (of_int i)"
proof -
  assume "\<bar>i\<bar> \<le> 9007199254740992"
  then have "\<bar>rat_of_int i\<bar> \<le> rat_of_int 9007199254740992"
    unfolding of_int_abs [symmetric] of_int_le_iff .
  then show ?thesis by (simp add: round_double_def)
qed

lemma round_double_nat:
  "n \<le> 9007199254740992 \<Longrightarrow> round_double (of_nat n) = Fin (of_nat n)"
  using round_double_int [of "int n"] by simp

lemma read_events_rows:
  "list_all (\<lambda>r. map_of r ''price'' \<noteq> None) rows \<Longrightarrow>
   read_events (map Data rows) acc
     = Inr (acc @ map (\<lambda>r. \<lparr>price = coerce_price (the (map_of r ''price'')),
                              columns = AList.delete ''price'' r\<rparr>) rows)"
  by (induction rows arbitrary: acc) (auto simp: on_data_def)

lemma get_prop_on_data:
  "k \<noteq> ''price'' \<Longrightarrow>
   get_prop \<lparr>price = n, columns = AList.delete ''price'' r\<rparr> k = text_or_undefined (map_of r k)"
  by (cases "map_of r k") (simp_all add: get_prop_def column_def delete_conv)

text \<open>
  C2 (amended). For every sequence of N rows read from the file, each with a \<^verbatim>\<open>price\<close>
  cell, parsing produces exactly N listings, one per row in the rows' order. In every
  produced listing \<^verbatim>\<open>price\<close> is of numeric type: it is the number that the coercion makes
  of the cell's text. Every other column, \<^verbatim>\<open>bedrooms\<close> and \<^verbatim>\<open>review_scores_rating\<close>
  included, is left as it was read: the raw text of its cell, or \<^verbatim>\<open>undefined\<close> when the
  row has no such cell.
\<close>

theorem parseCSV_one_listing_per_row:
  assumes "list_all (\<lambda>r. map_of r ''price'' \<noteq> None) rows"
  shows "\<exists>ls. parseCSV (map Data rows) = Inr ls \<and> length ls = length rows
     \<and> (\<forall>i<length rows.
           get_prop (ls ! i) ''price'' = Num (coerce_price (the (map_of (rows ! i) ''price'')))
           \<and> is_number (get_prop (ls ! i) ''price'')
           \<and> (\<forall>k. k \<noteq> ''price'' \<longrightarrow>
                 get_prop (ls ! i) k = text_or_undefined (map_of (rows ! i) k)))"
  using assms
  by (simp add: parseCSV_def read_events_rows get_prop_on_data) (simp add: get_prop_def)

theorem parseCSV_one_listing_per_row_witness:
  "list_all (\<lambda>r. map_of r ''price'' \<noteq> None) example_rows
   \<and> (\<exists>ls. parseCSV (map Data example_rows) = Inr ls
        \<and> length ls = 2
        \<and> get_prop (ls ! 1) ''price'' = Num (Fin 1250)
        \<and> get_prop (ls ! 1) ''bedrooms'' = Str ''3'')"
proof -
  have h: "list_all (\<lambda>r. map_of r ''price'' \<noteq> None) example_rows"
    by (simp add: example_rows_def)
  have n: "(1::nat) < length example_rows" by (simp add: example_rows_def)
  have p: "coerce_price (the (map_of (example_rows ! 1) ''price'')) = Fin 1250"
    by (simp add: example_rows_def to_number_defs)
  have b: "text_or_undefined (map_of (example_rows ! 1) ''bedrooms'') = Str ''3''"
    by (simp add: example_rows_def)
  have k: "''bedrooms'' \<noteq> ''price''" by simp
  from parseCSV_one_listing_per_row [OF h] obtain ls where
    ls: "parseCSV (map Data example_rows) = Inr ls" "length ls = length example_rows"
      "\<forall>i<length example_rows.
           get_prop (ls ! i) ''price'' = Num (coerce_price (the (map_of (example_rows ! i) ''price'')))
           \<and> is_number (get_prop (ls ! i) ''price'')
           \<and> (\<forall>k. k \<noteq> ''price'' \<longrightarrow>
                 get_prop (ls ! i) k = text_or_undefined (map_of (example_rows ! i) k))"
    by (elim exE conjE) (rule that; assumption)
  have l2: "length ls = 2" using ls(2) by (simp add: example_rows_def)
  note at1 = ls(3) [rule_format, OF n]
  have pr: "get_prop (ls ! 1) ''price'' = Num (Fin 1250)"
    using at1 [THEN conjunct1] by (simp only: p)
  have br: "get_prop (ls ! 1) ''bedrooms'' = Str ''3''"
    using at1 [THEN conjunct2, THEN conjunct2, rule_format, OF k] by (simp only: b)
  from ls(1) l2 pr br h show ?thesis by blast
qed

text \<open>
  The claim as it is worded fails on every row that has the three columns: only
  \<^verbatim>\<open>price\<close> is coerced, \<^verbatim>\<open>bedrooms\<close> and \<^verbatim>\<open>review_scores_rating\<close> stay texts.
\<close>

theorem parseCSV_one_listing_per_row_counterexample:
  "parseCSV [Data [(''price'', ''$100.00''), (''bedrooms'', ''2''), (''review_scores_rating'', ''95'')]]
     = Inr [\<lparr>price = Fin 100, columns = [(''bedrooms'', ''2''), (''review_scores_rating'', ''95'')]\<rparr>]
   \<and> get_prop \<lparr>price = Fin 100, columns = [(''bedrooms'', ''2''), (''review_scores_rating'', ''95'')]\<rparr>
        ''bedrooms'' = Str ''2''
   \<and> \<not> is_number (get_prop
        \<lparr>price = Fin 100, columns = [(''bedrooms'', ''2''), (''review_scores_rating'', ''95'')]\<rparr>
        ''bedrooms'')
   \<and> \<not> is_number (get_prop
        \<lparr>price = Fin 100, columns = [(''bedrooms'', ''2''), (''review_scores_rating'', ''95'')]\<rparr>
        ''review_scores_rating'')"
  by code_simp

text \<open>
  \<^verbatim>\<open>Number\<close> on a text of digits and points: digits alone and digits around one point
  are decimal literals; a second point makes the text no literal.
\<close>

lemma digit_is_plain:
  assumes "is_digit c"
  shows "\<not> is_space c" "c \<noteq> CHR ''.''" "c \<noteq> CHR ''+''" "c \<noteq> CHR ''-''" "c \<noteq> CHR ''I''"
    "c \<notin> set ''bB''" "c \<notin> set ''oO''" "c \<notin> set ''xX''"
  using assms by (auto simp: is_digit_def is_space_def)

lemma point_is_plain:
  "\<not> is_space CHR ''.''" "\<not> is_digit CHR ''.''"
  by (simp_all add: is_digit_def is_space_def)

lemma trim_plain:
  assumes "list_all (\<lambda>c. \<not> is_space c) s"
  shows "trim s = s"
proof -
  have "dropWhile is_space s = s"
    using assms by (cases s) simp_all
  moreover have "dropWhile is_space (rev s) = rev s"
    using assms by (cases s rule: rev_cases) simp_all
  ultimately show ?thesis by (simp add: trim_def)
qed

lemma takeWhile_all: "list_all P xs \<Longrightarrow> takeWhile P xs = xs"
  by (induction xs) simp_all

lemma dropWhile_all: "list_all P xs \<Longrightarrow> dropWhile P xs = []"
  by (induction xs) simp_all

lemma StringToNumber_digits:
  assumes ds: "list_all is_digit ds"
  shows "StringToNumber ds = round_double (of_nat (digits_value 10 ds))"
proof (cases ds)
  case Nil
  then show ?thesis
    by (simp add: StringToNumber_def trim_def digits_value_def round_double_def)
next
  case (Cons d ds')
  from ds have ns: "list_all (\<lambda>c. \<not> is_space c) ds"
    by (induction ds) (simp_all add: digit_is_plain)
  from ds Cons have d: "is_digit d" by simp
  have rl: "radix_literal ds = None"
  proof (cases ds')
    case Nil
    with Cons show ?thesis by (simp add: radix_literal_def)
  next
    case (Cons x rest)
    with ds \<open>ds = d # ds'\<close> have "is_digit x" by simp
    with Cons \<open>ds = d # ds'\<close> show ?thesis
      using digit_is_plain(6-8) [of x] by (simp add: radix_literal_def)
  qed
  have ni: "ds \<noteq> ''Infinity''"
    using d Cons digit_is_plain(5) [of d] by auto
  from Cons have ne: "ds \<noteq> []" by simp
  have zero: "digits_value 10 [] = 0" by (simp add: digits_value_def)
  have ud: "unsigned_decimal ds = round_double (of_nat (digits_value 10 ds))"
    by (simp add: unsigned_decimal_def takeWhile_all [OF ds] dropWhile_all [OF ds] ni ne
        exponent_part_def scale10_def zero)
  have "decimal_literal ds = unsigned_decimal ds"
    using digit_is_plain(3,4) [OF d] by (simp add: decimal_literal_def Cons)
  with ud rl ne show ?thesis
    by (simp add: StringToNumber_def trim_plain [OF ns])
qed

lemma StringToNumber_point:
  assumes ip: "list_all is_digit ip" and fp: "list_all is_digit fp" and ne: "ip @ fp \<noteq> []"
  shows "StringToNumber (ip @ CHR ''.'' # fp)
     = round_double (of_nat (digits_value 10 ip) + of_nat (digits_value 10 fp) / 10 ^ length fp)"
proof -
  let ?s = "ip @ CHR ''.'' # fp"
  have ns: "list_all (\<lambda>c. \<not> is_space c) ?s"
    using ip fp by (auto simp: list_all_iff digit_is_plain point_is_plain)
  have hd: "hd ?s = CHR ''.'' \<or> is_digit (hd ?s)"
    using ip by (cases ip) simp_all
  have rl: "radix_literal ?s = None"
  proof (cases ip)
    case Nil
    then show ?thesis by (cases fp) (simp_all add: radix_literal_def)
  next
    case (Cons d ip')
    show ?thesis
    proof (cases ip')
      case Nil
      with Cons show ?thesis by (simp add: radix_literal_def)
    next
      case (Cons x rest)
      with ip \<open>ip = d # ip'\<close> have "is_digit x" by simp
      with Cons \<open>ip = d # ip'\<close> show ?thesis
        using digit_is_plain(6-8) [of x] by (simp add: radix_literal_def)
    qed
  qed
  have ni: "?s \<noteq> ''Infinity''"
  proof
    assume "?s = ''Infinity''"
    then have "hd ?s = CHR ''I''" by simp
    with hd show False using digit_is_plain(5) [of "hd ?s"] by auto
  qed
  have tw: "takeWhile is_digit ?s = ip"
    using ip by (simp add: takeWhile_append2 list_all_iff point_is_plain)
  have dw: "dropWhile is_digit ?s = CHR ''.'' # fp"
    using ip by (simp add: dropWhile_append2 list_all_iff point_is_plain)
  have ud: "unsigned_decimal ?s
     = round_double (of_nat (digits_value 10 ip) + of_nat (digits_value 10 fp) / 10 ^ length fp)"
    using ne
    by (auto simp add: unsigned_decimal_def tw dw ni takeWhile_all [OF fp] dropWhile_all [OF fp]
        exponent_part_def scale10_def Let_def)
  have "decimal_literal ?s = unsigned_decimal ?s"
  proof (cases ?s)
    case Nil
    then show ?thesis by simp
  next
    case (Cons c rest)
    with hd have "c = CHR ''.'' \<or> is_digit c" by simp
    then have "c \<noteq> CHR ''+''" "c \<noteq> CHR ''-''"
      using digit_is_plain(3,4) [of c] by auto
    with Cons show ?thesis by (simp add: decimal_literal_def)
  qed
  with ud rl show ?thesis
    by (simp add: StringToNumber_def trim_plain [OF ns])
qed

lemma StringToNumber_two_points:
  assumes ip: "list_all is_digit ip" and fp: "list_all is_digit fp"
    and rest: "list_all (\<lambda>c. is_digit c \<or> c = CHR ''.'') rest"
  shows "StringToNumber (ip @ CHR ''.'' # fp @ CHR ''.'' # rest) = NaN"
proof -
  let ?t = "fp @ CHR ''.'' # rest"
  let ?s = "ip @ CHR ''.'' # ?t"
  have ns: "list_all (\<lambda>c. \<not> is_space c) ?s"
    using ip fp rest by (auto simp: list_all_iff digit_is_plain point_is_plain)
  have hd: "hd ?s = CHR ''.'' \<or> is_digit (hd ?s)"
    using ip by (cases ip) simp_all
  have rl: "radix_literal ?s = None"
  proof (cases ip)
    case Nil
    then show ?thesis by (cases ?t) (simp_all add: radix_literal_def)
  next
    case (Cons d ip')
    show ?thesis
    proof (cases ip')
      case Nil
      with Cons show ?thesis by (simp add: radix_literal_def)
    next
      case (Cons x more)
      with ip \<open>ip = d # ip'\<close> have "is_digit x" by simp
      with Cons \<open>ip = d # ip'\<close> show ?thesis
        using digit_is_plain(6-8) [of x] by (simp add: radix_literal_def)
    qed
  qed
  have ni: "?s \<noteq> ''Infinity''"
  proof
    assume "?s = ''Infinity''"
    then have "hd ?s = CHR ''I''" by simp
    with hd show False using digit_is_plain(5) [of "hd ?s"] by auto
  qed
  have tw: "takeWhile is_digit ?s = ip"
    using ip by (simp add: takeWhile_append2 list_all_iff point_is_plain)
  have dw: "dropWhile is_digit ?s = CHR ''.'' # ?t"
    using ip by (simp add: dropWhile_append2 list_all_iff point_is_plain)
  have tw2: "takeWhile is_digit ?t = fp"
    using fp by (simp add: takeWhile_append2 list_all_iff point_is_plain)
  have dw2: "dropWhile is_digit ?t = CHR ''.'' # rest"
    using fp by (simp add: dropWhile_append2 list_all_iff point_is_plain)
  have ud: "unsigned_decimal ?s = NaN"
    by (simp add: unsigned_decimal_def tw dw ni tw2 dw2 exponent_part_def Let_def)
  have "decimal_literal ?s = unsigned_decimal ?s"
  proof (cases ?s)
    case Nil
    then show ?thesis by simp
  next
    case (Cons c more)
    with hd have "c = CHR ''.'' \<or> is_digit c" by simp
    then have "c \<noteq> CHR ''+''" "c \<noteq> CHR ''-''"
      using digit_is_plain(3,4) [of c] by auto
    with Cons show ?thesis by (simp add: decimal_literal_def)
  qed
  with ud rl show ?thesis
    by (simp add: StringToNumber_def trim_plain [OF ns])
qed

text \<open>
  What the coercion does on the texts it is made for: the remainder of a \<^verbatim>\<open>price\<close> text
  is converted by \<^verbatim>\<open>Number\<close>, an empty remainder to 0, digits and digits around one
  point to the double nearest to their value; and the handler does not raise on a row
  whose \<^verbatim>\<open>price\<close> is a text.
\<close>

lemma coerce_price_literals:
  "strip_non_numeric t = filter (\<lambda>c. c \<in> set ''0123456789.'') t"
  "strip_non_numeric t = [] \<Longrightarrow> coerce_price t = Fin 0"
  "list_all is_digit ds \<Longrightarrow> strip_non_numeric t = ds \<Longrightarrow>
     coerce_price t = round_double (of_nat (digits_value 10 ds))"
  "list_all is_digit ip \<Longrightarrow> list_all is_digit fp \<Longrightarrow> ip @ fp \<noteq> [] \<Longrightarrow>
   strip_non_numeric t = ip @ CHR ''.'' # fp \<Longrightarrow>
     coerce_price t
       = round_double (of_nat (digits_value 10 ip) + of_nat (digits_value 10 fp) / 10 ^ length fp)"
  "map_of r ''price'' = Some t \<Longrightarrow>
     on_data r = Inr \<lparr>price = coerce_price t, columns = AList.delete ''price'' r\<rparr>"
proof -
  show "strip_non_numeric t = filter (\<lambda>c. c \<in> set ''0123456789.'') t"
    unfolding strip_non_numeric_def by (rule filter_cong [OF refl]) (auto simp: is_digit_def)
  show "coerce_price t = Fin 0" if "strip_non_numeric t = []"
    using that by (simp add: coerce_price_def StringToNumber_def trim_def)
  show "coerce_price t = round_double (of_nat (digits_value 10 ds))"
    if "list_all is_digit ds" "strip_non_numeric t = ds"
    using that StringToNumber_digits [of ds] by (simp add: coerce_price_def)
  show "coerce_price t
       = round_double (of_nat (digits_value 10 ip) + of_nat (digits_value 10 fp) / 10 ^ length fp)"
    if "list_all is_digit ip" "list_all is_digit fp" "ip @ fp \<noteq> []"
      "strip_non_numeric t = ip @ CHR ''.'' # fp"
    using that StringToNumber_point [of ip fp] by (simp add: coerce_price_def)
  show "on_data r = Inr \<lparr>price = coerce_price t, columns = AList.delete ''price'' r\<rparr>"
    if "map_of r ''price'' = Some t"
    using that by (simp add: on_data_def)
qed

text \<open>
  The two coercions that the specification gives as examples, and the rounding of a long
  text: 9007199254740993 is no double, and the price is the even neighbour
  9007199254740992.
\<close>

lemma round_double_examples:
  "round_double (2401 / 2) = Fin (2401 / 2)"
  "round_double 9007199254740993 = Fin 9007199254740992"
  by code_simp+

lemma coerce_price_examples:
  "coerce_price ''$1,200.50'' = Fin (2401 / 2)"
  "coerce_price ''abc'' = Fin 0"
  "coerce_price ''9007199254740993'' = Fin 9007199254740992"
proof -
  have s1: "strip_non_numeric ''$1,200.50'' = ''1200'' @ CHR ''.'' # ''50''"
    by (simp add: strip_non_numeric_def is_digit_def)
  have "coerce_price ''$1,200.50''
      = round_double (of_nat (digits_value 10 ''1200'')
          + of_nat (digits_value 10 ''50'') / 10 ^ length ''50'')"
    by (rule coerce_price_literals(4) [OF _ _ _ s1]) (simp_all add: is_digit_def)
  also have "of_nat (digits_value 10 ''1200'')
          + of_nat (digits_value 10 ''50'') / 10 ^ length ''50'' = (2401 / 2 :: rat)"
    by (simp add: digits_value_def digit_value_def is_digit_def)
  finally show "coerce_price ''$1,200.50'' = Fin (2401 / 2)"
    by (simp only: round_double_examples)
  have "strip_non_numeric ''abc'' = []"
    by (simp add: strip_non_numeric_def is_digit_def)
  then show "coerce_price ''abc'' = Fin 0"
    by (rule coerce_price_literals(2))
  have s3: "strip_non_numeric ''9007199254740993'' = ''9007199254740993''"
    by (simp add: strip_non_numeric_def is_digit_def)
  have "coerce_price ''9007199254740993''
      = round_double (of_nat (digits_value 10 ''9007199254740993''))"
    by (rule coerce_price_literals(3) [OF _ s3]) (simp add: is_digit_def)
  also have "of_nat (digits_value 10 ''9007199254740993'') = (9007199254740993 :: rat)"
    by (simp add: digits_value_def digit_value_def is_digit_def)
  finally show "coerce_price ''9007199254740993'' = Fin 9007199254740992"
    by (simp only: round_double_examples)
qed

text \<open>
  C3. The coercion strips every character but digits and points and converts the
  remainder with \<^verbatim>\<open>Number\<close>. There is no value for a conversion that fails: a text that
  keeps more than one point, or a lone point, is no numeric literal, and the price
  becomes \<^verbatim>\<open>NaN\<close>, not 0.
\<close>

theorem coerce_price_two_points:
  "strip_non_numeric ''$1.234.50'' = ''1.234.50''
   \<and> coerce_price ''$1.234.50'' = NaN
   \<and> on_data [(''price'', ''$1.234.50'')] = Inr \<lparr>price = NaN, columns = []\<rparr>
   \<and> coerce_price ''.'' = NaN"
  by (simp add: on_data_def to_number_defs)

section \<open>Properties of the statistics\<close>

lemma foldl_jsadd: "foldl (\<lambda>sum l. jsadd sum (f l)) a ls = total_from a (map f ls)"
  by (induction ls arbitrary: a) simp_all

lemma jsadd_nats:
  "a + n \<le> 9007199254740992 \<Longrightarrow>
   jsadd (number_of_nat a) (number_of_nat n) = number_of_nat (a + n)"
  using round_double_nat [of "a + n"] by (simp add: number_of_nat_def)

lemma total_from_nats:
  "a + sum_list ns \<le> 9007199254740992 \<Longrightarrow>
   total_from (number_of_nat a) (map number_of_nat ns) = number_of_nat (a + sum_list ns)"
proof (induction ns arbitrary: a)
  case Nil
  show ?case by simp
next
  case (Cons n ns)
  from Cons.prems have "a + n \<le> 9007199254740992" by simp
  then have "jsadd (number_of_nat a) (number_of_nat n) = number_of_nat (a + n)"
    by (rule jsadd_nats)
  moreover from Cons.prems have "(a + n) + sum_list ns \<le> 9007199254740992" by simp
  ultimately show ?case
    using Cons.IH [of "a + n"] by (simp add: add.assoc)
qed

lemma total_nats:
  "sum_list ns \<le> 9007199254740992 \<Longrightarrow> total (map number_of_nat ns) = number_of_nat (sum_list ns)"
  using total_from_nats [of 0 ns] by (simp add: total_def number_of_nat_def)

lemma jsdiv_nats:
  "(if number_of_nat b = Fin 0 then Fin 0 else jsdiv (number_of_nat a) (number_of_nat b))
     = (if b = 0 then Fin 0 else round_double (of_nat a / of_nat b))"
  by (simp add: number_of_nat_def)

lemma computeStats_result:
  "fst (computeStats s) =
     \<lparr>stats.count = length (listings s),
      averagePricePerRoom =
        (if listings s = [] \<or> total (map bedrooms_number (listings s)) = Fin 0 then Fin 0
         else jsdiv (total (map price (listings s))) (total (map bedrooms_number (listings s))))\<rparr>"
  by (simp add: computeStats_def Let_def foldl_jsadd total_def strict_eq_def
      bedrooms_number_def [abs_def])

text \<open>
  C4. For every store, \<^verbatim>\<open>computeStats\<close> returns an object whose \<^verbatim>\<open>count\<close> is the size of
  the listing set and whose \<^verbatim>\<open>averagePricePerRoom\<close> is the sum of the listings' prices
  divided by the sum of their bedrooms, except that it is 0 when the set is empty or the
  summed bedroom count is exactly 0; on the empty set it returns
  \<^verbatim>\<open>{count: 0, averagePricePerRoom: 0}\<close>. The sums and the quotient are those of
  JavaScript's doubles: a sum adds the numbers in the listings' order, a \<^verbatim>\<open>bedrooms\<close> text
  counting as the number it converts to, and every addition and the division round to
  the nearest double. Where the prices and the bedroom counts are natural numbers with
  sums up to 9007199254740992, the sums are exact and the average is the quotient of the
  two sums, rounded once.
\<close>

theorem computeStats_count_and_average:
  "stats.count (fst (computeStats s)) = length (listings s)
   \<and> averagePricePerRoom (fst (computeStats s)) =
       (if listings s = [] \<or> total (map bedrooms_number (listings s)) = Fin 0 then Fin 0
        else jsdiv (total (map price (listings s))) (total (map bedrooms_number (listings s))))
   \<and> (listings s \<noteq> [] \<and> map price (listings s) = map number_of_nat ps
        \<and> map bedrooms_number (listings s) = map number_of_nat bs
        \<and> sum_list ps \<le> 9007199254740992 \<and> sum_list bs \<le> 9007199254740992 \<longrightarrow>
       averagePricePerRoom (fst (computeStats s)) =
         (if sum_list bs = 0 then Fin 0
          else round_double (of_nat (sum_list ps) / of_nat (sum_list bs))))
   \<and> fst (computeStats \<lparr>listings = []\<rparr>) = \<lparr>stats.count = 0, averagePricePerRoom = Fin 0\<rparr>"
proof (intro conjI impI)
  show "stats.count (fst (computeStats s)) = length (listings s)"
    by (simp add: computeStats_result)
  show "averagePricePerRoom (fst (computeStats s)) =
       (if listings s = [] \<or> total (map bedrooms_number (listings s)) = Fin 0 then Fin 0
        else jsdiv (total (map price (listings s))) (total (map bedrooms_number (listings s))))"
    by (simp add: computeStats_result)
  show "fst (computeStats \<lparr>listings = []\<rparr>) = \<lparr>stats.count = 0, averagePricePerRoom = Fin 0\<rparr>"
    by (simp add: computeStats_result)
next
  assume a: "listings s \<noteq> [] \<and> map price (listings s) = map number_of_nat ps
        \<and> map bedrooms_number (listings s) = map number_of_nat bs
        \<and> sum_list ps \<le> 9007199254740992 \<and> sum_list bs \<le> 9007199254740992"
  then have p: "total (map price (listings s)) = number_of_nat (sum_list ps)"
    and b: "total (map bedrooms_number (listings s)) = number_of_nat (sum_list bs)"
    by (simp_all add: total_nats)
  from a have ne: "listings s \<noteq> []" by simp
  have "averagePricePerRoom (fst (computeStats s)) =
         (if number_of_nat (sum_list bs) = Fin 0 then Fin 0
          else jsdiv (number_of_nat (sum_list ps)) (number_of_nat (sum_list bs)))"
    by (simp add: computeStats_result ne p b)
  then show "averagePricePerRoom (fst (computeStats s)) =
         (if sum_list bs = 0 then Fin 0
          else round_double (of_nat (sum_list ps) / of_nat (sum_list bs)))"
    by (simp only: jsdiv_nats)
qed

lemma example_filtered_listings:
  "listings example_filtered
     = [example_listing 200 ''A'' ''2'' ''90'', example_listing 300 ''B'' ''3'' ''95'']"
  by code_simp

theorem computeStats_count_and_average_witness:
  "stats.count (fst (computeStats example_filtered)) = 2
   \<and> averagePricePerRoom (fst (computeStats example_filtered)) = Fin 100"
proof -
  have ne: "listings example_filtered \<noteq> []"
    by (simp add: example_filtered_listings)
  have ps: "map price (listings example_filtered) = map number_of_nat [200, 300]"
    by (simp add: example_filtered_listings example_listing_def number_of_nat_def)
  have bs: "map bedrooms_number (listings example_filtered) = map number_of_nat [2, 3]"
    by (simp add: example_filtered_listings example_listing_def bedrooms_number_def column_def
        to_number_defs number_of_nat_def)
  have le: "sum_list [200, 300 :: nat] \<le> 9007199254740992"
    "sum_list [2, 3 :: nat] \<le> 9007199254740992"
    by simp_all
  note t = computeStats_count_and_average [of example_filtered "[200, 300]" "[2, 3]"]
  have c: "stats.count (fst (computeStats example_filtered)) = 2"
    using t [THEN conjunct1] by (simp add: example_filtered_listings)
  have "averagePricePerRoom (fst (computeStats example_filtered))
      = (if sum_list [2, 3 :: nat] = 0 then Fin 0
         else round_double (of_nat (sum_list [200, 300]) / of_nat (sum_list [2, 3])))"
    using t [THEN conjunct2, THEN conjunct2, THEN conjunct1] ne ps bs le by blast
  then have a: "averagePricePerRoom (fst (computeStats example_filtered)) = Fin 100"
    by (simp add: round_double_def)
  from c a show ?thesis by (rule conjI)
qed

text \<open>
  The rounding at work: 100 by 3 bedrooms is the double 33.333333333333336, and the
  bedrooms 0.1, 0.2 and -0.3 do not sum to 0 but to the double 5.551115123125783e-17.
\<close>

lemma computeStats_rounds:
  "averagePricePerRoom (fst (computeStats
       \<lparr>listings = [\<lparr>price = Fin 100, columns = [(''bedrooms'', ''3'')]\<rparr>]\<rparr>))
     = Fin (4691249611844267 / 140737488355328)"
  "averagePricePerRoom (fst (computeStats
       \<lparr>listings = [\<lparr>price = Fin 100, columns = [(''bedrooms'', ''0.1'')]\<rparr>,
                     \<lparr>price = Fin 100, columns = [(''bedrooms'', ''0.2'')]\<rparr>,
                     \<lparr>price = Fin 100, columns = [(''bedrooms'', ''-0.3'')]\<rparr>]\<rparr>))
     = Fin 5404319552844595200"
  by code_simp+

section \<open>The views leave the store alone\<close>

text \<open>
  C8. \<^verbatim>\<open>computeStats\<close>, \<^verbatim>\<open>computeListingsByHost\<close> and \<^verbatim>\<open>getListings\<close> are read-only: for
  every store, calling any of them leaves the store's listing set unchanged, and
  \<^verbatim>\<open>getListings\<close> returns the current listing set.
\<close>

theorem views_are_read_only:
  "snd (computeStats s) = s \<and> snd (computeListingsByHost s) = s
   \<and> getListings s = (listings s, s)"
  by (simp add: computeStats_def computeListingsByHost_def getListings_def Let_def)

section \<open>Properties of the ranking by host\<close>

lemma proto_not_plain: "k \<notin> set object_prototype_names \<Longrightarrow> k \<noteq> ''__proto__''"
  by (auto simp: object_prototype_names_def)

lemma count_host_plain:
  assumes "hostKey l \<notin> set object_prototype_names" and "counts_only acc"
  shows "count_host acc l = AList.update (hostKey l) (Count (counted_in acc (hostKey l) + 1)) acc"
proof -
  from assms(2) have "map_of acc (hostKey l) = None \<or> (\<exists>n. map_of acc (hostKey l) = Some (Count n))"
    unfolding counts_only_def by (cases "map_of acc (hostKey l)") auto
  then show ?thesis
    using assms(1) proto_not_plain [OF assms(1)]
    by (auto simp: count_host_def counted_in_def Let_def)
qed

lemma counts_only_update: "counts_only acc \<Longrightarrow> counts_only (AList.update k (Count n) acc)"
  by (auto simp: counts_only_def update_conv')

lemma counted_in_update:
  "counted_in (AList.update k (Count n) acc) k' = (if k' = k then n else counted_in acc k')"
  by (simp add: counted_in_def update_conv')

lemma listings_of_host_Cons:
  "listings_of_host (l # ls) k = (if hostKey l = k then 1 else 0) + listings_of_host ls k"
  by (simp add: listings_of_host_def)

lemma foldl_count_host:
  assumes "list_all (\<lambda>l. hostKey l \<notin> set object_prototype_names) ls"
    and "counts_only acc" and "distinct (map fst acc)"
  shows "counts_only (foldl count_host acc ls)
    \<and> distinct (map fst (foldl count_host acc ls))
    \<and> fst ` set (foldl count_host acc ls) = fst ` set acc \<union> hostKey ` set ls
    \<and> (\<forall>k. counted_in (foldl count_host acc ls) k = counted_in acc k + listings_of_host ls k)"
  using assms
proof (induction ls arbitrary: acc)
  case Nil
  then show ?case by (simp add: listings_of_host_def)
next
  case (Cons l ls)
  from Cons.prems have plain: "hostKey l \<notin> set object_prototype_names"
    and rest: "list_all (\<lambda>l. hostKey l \<notin> set object_prototype_names) ls" by simp_all
  let ?acc = "count_host acc l"
  have step: "?acc = AList.update (hostKey l) (Count (counted_in acc (hostKey l) + 1)) acc"
    using plain Cons.prems(2) by (rule count_host_plain)
  have c: "counts_only ?acc" unfolding step using Cons.prems(2) by (rule counts_only_update)
  have d: "distinct (map fst ?acc)" unfolding step using Cons.prems(3) by (rule distinct_update)
  have k: "fst ` set ?acc = insert (hostKey l) (fst ` set acc)"
    unfolding step by (simp add: dom_update)
  have n: "counted_in ?acc k = counted_in acc k + (if hostKey l = k then 1 else 0)" for k
    unfolding step by (simp add: counted_in_update)
  from Cons.IH [OF rest c d] show ?case
    by (auto simp: k n listings_of_host_Cons)
qed

lemma set_insert_sorted: "set (insert_sorted cmp x ys) = insert x (set ys)"
  by (induction ys) auto

lemma set_js_sort: "set (js_sort cmp xs) = set xs"
  by (induction xs) (simp_all add: js_sort_def set_insert_sorted)

lemma length_insert_sorted: "length (insert_sorted cmp x ys) = Suc (length ys)"
  by (induction ys) auto

lemma length_js_sort: "length (js_sort cmp xs) = length xs"
  by (induction xs) (simp_all add: js_sort_def length_insert_sorted)

lemma distinct_insert_sorted:
  "distinct (map f (insert_sorted cmp x ys)) = distinct (map f (x # ys))"
  by (induction ys) (auto simp: set_insert_sorted)

lemma distinct_js_sort: "distinct (map f (js_sort cmp xs)) = distinct (map f xs)"
proof (induction xs)
  case Nil
  show ?case by (simp add: js_sort_def)
next
  case (Cons x xs)
  have "js_sort cmp (x # xs) = insert_sorted cmp x (js_sort cmp xs)"
    by (simp add: js_sort_def)
  then show ?case
    using Cons.IH by (simp add: distinct_insert_sorted set_js_sort)
qed

lemma set_entries: "set (entries obj) = set obj"
  by (auto simp: entries_def)

lemma distinct_entries: "distinct (map fst (entries obj)) = distinct (map fst obj)"
proof -
  let ?ix = "filter (\<lambda>e. is_array_index (fst e)) obj"
  let ?nx = "filter (\<lambda>e. \<not> is_array_index (fst e)) obj"
  have "distinct (map fst (sort_key (\<lambda>e. digits_value 10 (fst e)) ?ix)) = distinct (map fst ?ix)"
    by (simp add: distinct_map)
  moreover have "distinct (map fst (?ix @ ?nx)) = distinct (map fst obj)"
    by (induction obj) auto
  ultimately show ?thesis
    by (auto simp: entries_def)
qed

lemma by_count_descending_counts:
  assumes "host_count.count a = Count m" and "host_count.count b = Count n"
    and "m \<le> 9007199254740992" and "n \<le> 9007199254740992"
  shows "jsgt (by_count_descending a b) (Fin 0) = (m < n)"
proof -
  have "\<bar>int n - int m\<bar> \<le> 9007199254740992"
    using assms(3,4) by simp
  then have "round_double (of_int (int n - int m)) = Fin (of_int (int n - int m))"
    by (rule round_double_int)
  then have "jssub (Fin (of_nat n)) (Fin (of_nat m)) = Fin (of_int (int n - int m))"
    by (simp add: jssub_def)
  then show ?thesis
    using assms(1,2) by (simp add: by_count_descending_def jsgt_def)
qed

lemma sorted_insert_sorted:
  assumes "\<forall>e\<in>set (x # ys). \<exists>n\<le>9007199254740992. host_count.count e = Count n"
    and "sorted_wrt by_count ys"
  shows "sorted_wrt by_count (insert_sorted by_count_descending x ys)"
  using assms
proof (induction ys)
  case Nil
  show ?case by simp
next
  case (Cons y ys)
  from Cons.prems(1) obtain m n where m: "host_count.count x = Count m"
    and n: "host_count.count y = Count n"
    and mb: "m \<le> 9007199254740992" and nb: "n \<le> 9007199254740992" by auto
  note cmp = by_count_descending_counts [OF m n mb nb]
  show ?case
  proof (cases "m < n")
    case True
    have "sorted_wrt by_count (insert_sorted by_count_descending x ys)"
      using Cons.IH Cons.prems by simp
    moreover have "\<forall>e\<in>set (insert_sorted by_count_descending x ys). by_count y e"
      using Cons.prems(2) True m n by (auto simp: set_insert_sorted by_count_def)
    ultimately show ?thesis
      using True by (simp add: cmp)
  next
    case False
    have "\<forall>e\<in>set ys. by_count x e"
      using Cons.prems(2) False m n by (auto simp: by_count_def)
    then show ?thesis
      using False Cons.prems(2) m n
      by (auto simp: cmp by_count_def)
  qed
qed

lemma sorted_js_sort:
  "\<forall>e\<in>set xs. \<exists>n\<le>9007199254740992. host_count.count e = Count n \<Longrightarrow>
   sorted_wrt by_count (js_sort by_count_descending xs)"
proof (induction xs)
  case Nil
  show ?case by (simp add: js_sort_def)
next
  case (Cons x xs)
  have eq: "js_sort by_count_descending (x # xs)
      = insert_sorted by_count_descending x (js_sort by_count_descending xs)"
    by (simp add: js_sort_def)
  have "\<forall>e\<in>set (x # js_sort by_count_descending xs).
          \<exists>n\<le>9007199254740992. host_count.count e = Count n"
    using Cons.prems by (simp add: set_js_sort)
  moreover have "sorted_wrt by_count (js_sort by_count_descending xs)"
    using Cons by simp
  ultimately show ?case unfolding eq
    by (rule sorted_insert_sorted)
qed

lemma listings_of_host_le: "listings_of_host ls k \<le> length ls"
  by (simp add: listings_of_host_def)

text \<open>
  The ranking of a listing set whose host keys are not names of members of
  \<^verbatim>\<open>Object.prototype\<close>; the bound on the set's size is far above the length an array
  can have.
\<close>

lemma computeListingsByHost_plain_keys:
  assumes "list_all (\<lambda>l. hostKey l \<notin> set object_prototype_names) (listings s)"
    and len: "length (listings s) \<le> 9007199254740992"
  shows "distinct (map host_id (fst (computeListingsByHost s)))"
    and "host_id ` set (fst (computeListingsByHost s)) = hostKey ` set (listings s)"
    and "\<forall>e\<in>set (fst (computeListingsByHost s)).
           host_count.count e = Count (listings_of_host (listings s) (host_id e))"
    and "sorted_wrt by_count (fst (computeListingsByHost s))"
proof -
  let ?H = "foldl count_host [] (listings s)"
  let ?mk = "\<lambda>(host_id, count). \<lparr>host_id = host_id, host_count.count = count\<rparr>"
  let ?E = "map ?mk (entries ?H)"
  have r: "fst (computeListingsByHost s) = js_sort by_count_descending ?E"
    by (simp add: computeListingsByHost_def Let_def)
  have "counts_only []" by (simp add: counts_only_def)
  from foldl_count_host [OF assms(1) this, simplified]
  have co: "counts_only ?H" and di: "distinct (map fst ?H)"
    and ks: "fst ` set ?H = hostKey ` set (listings s)"
    and cn: "\<And>k. counted_in ?H k = listings_of_host (listings s) k"
    by (simp_all add: counted_in_def)
  have ids: "map host_id ?E = map fst (entries ?H)"
    by (simp add: case_prod_beta)
  show "distinct (map host_id (fst (computeListingsByHost s)))"
    unfolding r by (simp only: distinct_js_sort ids distinct_entries di)
  have setE: "set ?E = ?mk ` set ?H"
    by (simp add: set_entries)
  show "host_id ` set (fst (computeListingsByHost s)) = hostKey ` set (listings s)"
    unfolding r set_js_sort setE ks [symmetric] by (force simp: image_iff)
  have val: "host_count.count e = Count (listings_of_host (listings s) (host_id e))"
    if "e \<in> set ?E" for e
  proof -
    from that obtain k v where kv: "(k, v) \<in> set ?H" and e: "e = \<lparr>host_id = k, host_count.count = v\<rparr>"
      unfolding setE by auto
    from kv di have m: "map_of ?H k = Some v" by simp
    with co obtain n where n: "v = Count n" unfolding counts_only_def by blast
    from cn [of k] m n have "n = listings_of_host (listings s) k"
      by (simp add: counted_in_def)
    with e n show ?thesis by simp
  qed
  then show "\<forall>e\<in>set (fst (computeListingsByHost s)).
           host_count.count e = Count (listings_of_host (listings s) (host_id e))"
    unfolding r set_js_sort by blast
  have "listings_of_host (listings s) k \<le> 9007199254740992" for k
    using listings_of_host_le [of "listings s" k] len by simp
  with val have "\<forall>e\<in>set ?E. \<exists>n\<le>9007199254740992. host_count.count e = Count n" by blast
  then show "sorted_wrt by_count (fst (computeListingsByHost s))"
    unfolding r by (rule sorted_js_sort)
qed

text \<open>The specification's two examples of the ranking.\<close>

lemma computeListingsByHost_example:
  "fst (computeListingsByHost
         \<lparr>listings = [\<lparr>price = Fin 1, columns = [(''host_id'', ''A'')]\<rparr>,
                       \<lparr>price = Fin 2, columns = [(''host_id'', ''A'')]\<rparr>,
                       \<lparr>price = Fin 3, columns = [(''host_id'', ''B'')]\<rparr>]\<rparr>)
     = [\<lparr>host_id = ''A'', host_count.count = Count 2\<rparr>,
        \<lparr>host_id = ''B'', host_count.count = Count 1\<rparr>]"
  by code_simp

lemma computeListingsByHost_unknown:
  "fst (computeListingsByHost
         \<lparr>listings = [\<lparr>price = Fin 1, columns = [(''host_id'', [])]\<rparr>,
                       \<lparr>price = Fin 2, columns = []\<rparr>]\<rparr>)
     = [\<lparr>host_id = ''unknown'', host_count.count = Count 2\<rparr>]"
  by code_simp

text \<open>
  C5. \<^verbatim>\<open>computeListingsByHost\<close> groups by host key, counts and ranks, as the lemmas
  above say for every listing set whose host keys are not names of members of
  \<^verbatim>\<open>Object.prototype\<close>. For a host whose id is such a name the lookup \<^verbatim>\<open>acc[hostKey]\<close>
  on the object literal finds the inherited member, which is truthy, and the value
  stored is a text, not the count 1.
\<close>

theorem computeListingsByHost_inherited_member:
  "fst (computeListingsByHost
         \<lparr>listings = [\<lparr>price = Fin 100, columns = [(''host_id'', ''constructor'')]\<rparr>]\<rparr>)
     = [\<lparr>host_id = ''constructor'',
         host_count.count = Text ''function Object() { [native code] }1''\<rparr>]"
  by code_simp

section \<open>Properties of the export\<close>

text \<open>
  C9 (amended). Exporting to a path that can be written stores the serialised data
  there; and for a stats object, decoding the exported document reproduces the pair of
  \<^verbatim>\<open>count\<close> and \<^verbatim>\<open>averagePricePerRoom\<close> exactly when \<^verbatim>\<open>averagePricePerRoom\<close> is a finite
  number: \<^verbatim>\<open>NaN\<close> and the infinities are written as \<^verbatim>\<open>null\<close> and are not read back.
\<close>

theorem export_then_decode:
  "(writable outputPath \<longrightarrow>
      exportResults writable outputPath data files
        = Inr (files(outputPath \<mapsto> JSON_stringify data)))
   \<and> (decode_stats (JSON_stringify (Stats st)) = Some (stats_pair st))
       = (\<exists>q. averagePricePerRoom st = Fin q)"
  by (cases "averagePricePerRoom st")
     (simp_all add: exportResults_def decode_stats_def stats_pair_def)

lemma example_filtered_stats:
  "stats.count (fst (computeStats example_filtered)) = 2"
  "averagePricePerRoom (fst (computeStats example_filtered)) = Fin 100"
  by (simp_all add: computeStats_result example_filtered_listings example_listing_def
      bedrooms_number_def column_def to_number_defs total_def)

theorem export_then_decode_witness:
  "exportResults (\<lambda>p. True) ''stats.json'' (Stats (fst (computeStats example_filtered))) Map.empty
     = Inr [''stats.json'' \<mapsto> JSON_stringify (Stats (fst (computeStats example_filtered)))]
   \<and> decode_stats (JSON_stringify (Stats (fst (computeStats example_filtered))))
     = Some (Some (Fin 2), Some (Fin 100))"
proof -
  note t = export_then_decode [of "\<lambda>p. True" "''stats.json''"
      "Stats (fst (computeStats example_filtered))" Map.empty "fst (computeStats example_filtered)"]
  have a: "averagePricePerRoom (fst (computeStats example_filtered)) = Fin 100"
    and c: "stats.count (fst (computeStats example_filtered)) = 2"
    by (rule example_filtered_stats)+
  have "decode_stats (JSON_stringify (Stats (fst (computeStats example_filtered))))
      = Some (stats_pair (fst (computeStats example_filtered)))"
    using t [THEN conjunct2] a by simp
  then have d: "decode_stats (JSON_stringify (Stats (fst (computeStats example_filtered))))
     = Some (Some (Fin 2), Some (Fin 100))"
    by (simp add: stats_pair_def a c)
  have e: "exportResults (\<lambda>p. True) ''stats.json'' (Stats (fst (computeStats example_filtered))) Map.empty
     = Inr [''stats.json'' \<mapsto> JSON_stringify (Stats (fst (computeStats example_filtered)))]"
    using t [THEN conjunct1] by simp
  from e d show ?thesis by (rule conjI)
qed

text \<open>
  The claim as it is worded fails for the stats of a set whose bedrooms do not sum to a
  number: one listing with the bedrooms text \<^verbatim>\<open>studio\<close> gives the average \<^verbatim>\<open>NaN\<close>, which
  is exported as \<^verbatim>\<open>null\<close>.
\<close>

theorem export_then_decode_counterexample:
  "fst (computeStats \<lparr>listings = [\<lparr>price = Fin 100, columns = [(''bedrooms'', ''studio'')]\<rparr>]\<rparr>)
     = \<lparr>stats.count = 1, averagePricePerRoom = NaN\<rparr>
   \<and> JSON_stringify (Stats \<lparr>stats.count = 1, averagePricePerRoom = NaN\<rparr>)
     = JObject [(''count'', JNumber 1), (''averagePricePerRoom'', JNull)]
   \<and> decode_stats (JSON_stringify (Stats \<lparr>stats.count = 1, averagePricePerRoom = NaN\<rparr>))
     = Some (Some (Fin 1), None)
   \<and> stats_pair \<lparr>stats.count = 1, averagePricePerRoom = NaN\<rparr> = (Some (Fin 1), Some NaN)"
  by (simp add: computeStats_def column_def to_number_defs strict_eq_def decode_stats_def
      stats_pair_def)

end
